theory Spec2Isabelle
  imports Main "HOL-Library.Word"
begin

section \<open>The Fraction class of exercises/operators/operators.cpp\<close>

text \<open>
  \<^verbatim>\<open>unsigned int\<close> and \<^verbatim>\<open>int\<close> are taken as 32 bits wide: \<open>*\<close> on \<open>uint\<close>
  wraps modulo \<open>2 ^ 32\<close>, \<open>div\<close> is the unsigned division and \<open><\<close> the unsigned
  comparison. A \<^verbatim>\<open>Fraction\<close> is its two private fields.
\<close>

type_synonym uint = "32 word"

record Fraction =
  m_num :: uint
  m_denom :: uint

text \<open>
  The only operation of the class that has no defined result is the division in
  \<^verbatim>\<open>normalize\<close> when its divisor is zero. It is the one error of the model; every
  operator that normalizes returns \<open>error + 'a\<close>, with \<open>Inl\<close> the error.
\<close>

datatype error = DivisionByZero

subsection \<open>Constructors\<close>

text \<open>
  \<^verbatim>\<open>Fraction(unsigned int num, unsigned int denom): m_num(num), m_denom(denom) {}\<close> and
  \<^verbatim>\<open>Fraction(unsigned int num): m_num(num), m_denom(1) {}\<close>: both bodies are empty,
  nothing is checked and nothing is reduced.
\<close>

definition Fraction2 :: "uint \<Rightarrow> uint \<Rightarrow> Fraction" where
  "Fraction2 num denom = \<lparr>m_num = num, m_denom = denom\<rparr>"

definition Fraction1 :: "uint \<Rightarrow> Fraction" where
  "Fraction1 num = \<lparr>m_num = num, m_denom = 1\<rparr>"

text \<open>
  Construction seen in the result type of the operators: the constructor has no
  \<^verbatim>\<open>throw\<close> and no check, so it has no \<open>Inl\<close> branch.
\<close>

definition make :: "uint \<Rightarrow> uint \<Rightarrow> error + Fraction" where
  "make num denom = Inr (Fraction2 num denom)"

subsection \<open>normalize\<close>

text \<open>
  \<^verbatim>\<open>std::gcd\<close> of two \<^verbatim>\<open>unsigned int\<close> is the greatest common divisor of their
  values, as an \<^verbatim>\<open>unsigned int\<close>; \<open>gcd 0 0 = 0\<close>.
\<close>

definition std_gcd :: "uint \<Rightarrow> uint \<Rightarrow> uint" where
  "std_gcd m n = word_of_nat (gcd (unat m) (unat n))"

text \<open>
  \<^verbatim>\<open>const int gcd = std::gcd(m_num, m_denom);\<close> stores the divisor in a signed
  variable (\<open>sint\<close>); in \<^verbatim>\<open>m_num /= gcd\<close> the usual arithmetic conversions turn it
  back into an \<^verbatim>\<open>unsigned int\<close> (\<open>word_of_int\<close>) and the division is unsigned.
\<close>

definition normalize_Fraction :: "Fraction \<Rightarrow> error + Fraction" where
  "normalize_Fraction f =
     (let gcd_int = sint (std_gcd (m_num f) (m_denom f));
          g = (word_of_int gcd_int :: uint)
      in if g = 0 then Inl DivisionByZero
         else Inr \<lparr>m_num = m_num f div g, m_denom = m_denom f div g\<rparr>)"

subsection \<open>Multiplication\<close>

text \<open>\<^verbatim>\<open>Fraction& operator*=(unsigned int coeff)\<close>: the updated object is the result.\<close>

definition operator_mul_assign :: "Fraction \<Rightarrow> uint \<Rightarrow> error + Fraction" where
  "operator_mul_assign f coeff = normalize_Fraction (f\<lparr>m_num := m_num f * coeff\<rparr>)"

text \<open>\<^verbatim>\<open>Fraction& operator*=(const Fraction& r)\<close>.\<close>

definition operator_mul_assign_frac :: "Fraction \<Rightarrow> Fraction \<Rightarrow> error + Fraction" where
  "operator_mul_assign_frac f r =
     normalize_Fraction \<lparr>m_num = m_num f * m_num r, m_denom = m_denom f * m_denom r\<rparr>"

text \<open>The member \<^verbatim>\<open>Fraction operator*(unsigned int coeff)\<close>.\<close>

definition operator_mul_member :: "Fraction \<Rightarrow> uint \<Rightarrow> error + Fraction" where
  "operator_mul_member f coeff =
     (case operator_mul_assign (Fraction2 (m_num f) (m_denom f)) coeff of
        Inl e \<Rightarrow> Inl e
      | Inr rr \<Rightarrow> normalize_Fraction rr)"

text \<open>The free \<^verbatim>\<open>Fraction operator*(unsigned int coeff, Fraction r)\<close>.\<close>

definition operator_mul_free :: "uint \<Rightarrow> Fraction \<Rightarrow> error + Fraction" where
  "operator_mul_free coeff r =
     (case operator_mul_assign (Fraction2 (m_num r) (m_denom r)) coeff of
        Inl e \<Rightarrow> Inl e
      | Inr rr \<Rightarrow> normalize_Fraction rr)"

text \<open>\<^verbatim>\<open>Fraction operator*(const Fraction l, const Fraction r)\<close>.\<close>

definition operator_mul :: "Fraction \<Rightarrow> Fraction \<Rightarrow> error + Fraction" where
  "operator_mul l r =
     normalize_Fraction (Fraction2 (m_num l * m_num r) (m_denom l * m_denom r))"

subsection \<open>Printing\<close>






subsection \<open>Comparisons\<close>

text \<open>
  Each comparison normalizes a copy of the left operand, then a copy of the right one.
\<close>

definition operator_eq :: "Fraction \<Rightarrow> Fraction \<Rightarrow> error + bool" where
  "operator_eq l r =
     (case normalize_Fraction l of
        Inl e \<Rightarrow> Inl e
      | Inr ll \<Rightarrow>
          (case normalize_Fraction r of
             Inl e \<Rightarrow> Inl e
           | Inr rr \<Rightarrow> Inr (m_num ll = m_num rr \<and> m_denom ll = m_denom rr)))"

definition operator_ne :: "Fraction \<Rightarrow> Fraction \<Rightarrow> error + bool" where
  "operator_ne l r = (case operator_eq l r of Inl e \<Rightarrow> Inl e | Inr b \<Rightarrow> Inr (\<not> b))"

definition operator_lt :: "Fraction \<Rightarrow> Fraction \<Rightarrow> error + bool" where
  "operator_lt l r =
     (case normalize_Fraction l of
        Inl e \<Rightarrow> Inl e
      | Inr ll \<Rightarrow>
          (case normalize_Fraction r of
             Inl e \<Rightarrow> Inl e
           | Inr rr \<Rightarrow> Inr (m_num ll * m_denom rr < m_num rr * m_denom ll)))"

text \<open>\<^verbatim>\<open>l < r || l == r\<close>: the right operand of \<^verbatim>\<open>||\<close> runs only when the left is false.\<close>

definition operator_le :: "Fraction \<Rightarrow> Fraction \<Rightarrow> error + bool" where
  "operator_le l r =
     (case operator_lt l r of
        Inl e \<Rightarrow> Inl e
      | Inr b \<Rightarrow> if b then Inr True else operator_eq l r)"

definition operator_gt :: "Fraction \<Rightarrow> Fraction \<Rightarrow> error + bool" where
  "operator_gt l r =
     (case normalize_Fraction l of
        Inl e \<Rightarrow> Inl e
      | Inr ll \<Rightarrow>
          (case normalize_Fraction r of
             Inl e \<Rightarrow> Inl e
           | Inr rr \<Rightarrow> Inr (m_num ll * m_denom rr > m_num rr * m_denom ll)))"

definition operator_ge :: "Fraction \<Rightarrow> Fraction \<Rightarrow> error + bool" where
  "operator_ge l r =
     (case operator_gt l r of
        Inl e \<Rightarrow> Inl e
      | Inr b \<Rightarrow> if b then Inr True else operator_eq l r)"

section \<open>The vocabulary of the specification\<close>

text \<open>The two stored fields, read as natural numbers.\<close>

definition stored_pair :: "Fraction \<Rightarrow> nat \<times> nat" where
  "stored_pair f = (unat (m_num f), unat (m_denom f))"

text \<open>
  The reduced form of a numerator and a denominator over the natural numbers: both
  divided by their greatest common divisor.
\<close>

definition reduced_pair :: "nat \<Rightarrow> nat \<Rightarrow> nat \<times> nat" where
  "reduced_pair n d = (n div gcd n d, d div gcd n d)"

definition reduced_form :: "Fraction \<Rightarrow> nat \<times> nat" where
  "reduced_form f = reduced_pair (unat (m_num f)) (unat (m_denom f))"

text \<open>A stored pair is reduced when its fields have no common factor above 1.\<close>

definition reduced :: "Fraction \<Rightarrow> bool" where
  "reduced f = (gcd (unat (m_num f)) (unat (m_denom f)) = 1)"

text \<open>An operation returned a fraction, stored reduced, zero as \<open>0/1\<close>.\<close>

definition stored_reduced :: "error + Fraction \<Rightarrow> bool" where
  "stored_reduced x =
     (case x of
        Inl e \<Rightarrow> False
      | Inr r \<Rightarrow> reduced r \<and> (m_num r = 0 \<longrightarrow> m_denom r = 1))"

text \<open>The fields are not both zero.\<close>

definition nonzero :: "Fraction \<Rightarrow> bool" where
  "nonzero f = (m_num f \<noteq> 0 \<or> m_denom f \<noteq> 0)"

text \<open>
  The two cross products that the comparisons form from the reduced operands fit an
  \<^verbatim>\<open>unsigned int\<close>.
\<close>

definition cross_fits :: "Fraction \<Rightarrow> Fraction \<Rightarrow> bool" where
  "cross_fits a b =
     (fst (reduced_form a) * snd (reduced_form b) < 2 ^ 32 \<and>
      fst (reduced_form b) * snd (reduced_form a) < 2 ^ 32)"





section \<open>Properties of normalize\<close>

lemma gcd_le_max: "gcd (a::nat) b \<le> max a b"
proof (cases "a = 0")
  case True
  then show ?thesis by simp
next
  case False
  then have "gcd a b \<le> a" by (rule gcd_le1_nat)
  then show ?thesis by simp
qed

lemma unat_std_gcd: "unat (std_gcd m n) = gcd (unat m) (unat n)"
proof -
  have "unat m < 2 ^ 32" "unat n < 2 ^ 32"
    using unsigned_less [of m] unsigned_less [of n] by simp_all
  then have "gcd (unat m) (unat n) < 2 ^ LENGTH(32)"
    using gcd_le_max [of "unat m" "unat n"] by simp
  then show ?thesis
    by (simp add: std_gcd_def unat_of_nat)
qed

lemma std_gcd_eq_0: "std_gcd m n = 0 \<longleftrightarrow> m = 0 \<and> n = 0"
proof -
  have "std_gcd m n = 0 \<longleftrightarrow> unat (std_gcd m n) = 0"
    by (simp add: unat_eq_0)
  also have "\<dots> \<longleftrightarrow> unat m = 0 \<and> unat n = 0"
    by (simp add: unat_std_gcd)
  finally show ?thesis by (simp add: unat_eq_0)
qed

text \<open>The round trip through the signed variable changes nothing.\<close>

lemma normalize_cases:
  "normalize_Fraction f =
     (if m_num f = 0 \<and> m_denom f = 0 then Inl DivisionByZero
      else Inr \<lparr>m_num = m_num f div std_gcd (m_num f) (m_denom f),
                m_denom = m_denom f div std_gcd (m_num f) (m_denom f)\<rparr>)"
  by (simp add: normalize_Fraction_def Let_def std_gcd_eq_0)

lemma normalize_Inl: "normalize_Fraction f = Inl e \<longleftrightarrow> m_num f = 0 \<and> m_denom f = 0"
  by (cases e) (simp add: normalize_cases)

lemma normalize_Inr:
  assumes "normalize_Fraction f = Inr r"
  shows "nonzero f" and "stored_pair r = reduced_form f"
  using assms
  by (auto simp: normalize_cases nonzero_def stored_pair_def reduced_form_def reduced_pair_def
      unat_div unat_std_gcd split: if_splits)

lemma normalize_nonzero:
  assumes "nonzero f"
  shows "\<exists>r. normalize_Fraction f = Inr r \<and> stored_pair r = reduced_form f"
  using assms
  by (auto simp: normalize_cases nonzero_def stored_pair_def reduced_form_def reduced_pair_def
      unat_div unat_std_gcd)

lemma nonzero_unat: "nonzero f \<longleftrightarrow> unat (m_num f) \<noteq> 0 \<or> unat (m_denom f) \<noteq> 0"
  by (simp add: nonzero_def unat_eq_0)

lemma normalize_reduced:
  assumes "normalize_Fraction f = Inr r"
  shows "reduced r"
proof -
  let ?n = "unat (m_num f)" and ?d = "unat (m_denom f)"
  from assms have nz: "?n \<noteq> 0 \<or> ?d \<noteq> 0"
    using normalize_Inr(1) [of f r] by (simp add: nonzero_unat)
  from assms have "stored_pair r = (?n div gcd ?n ?d, ?d div gcd ?n ?d)"
    using normalize_Inr(2) [of f r] by (simp add: reduced_form_def reduced_pair_def)
  moreover from nz have "coprime (?n div gcd ?n ?d) (?d div gcd ?n ?d)"
    by (rule div_gcd_coprime)
  ultimately show ?thesis
    by (simp add: reduced_def stored_pair_def coprime_iff_gcd_eq_1)
qed

lemma reduced_zero_num:
  assumes "reduced r" and "m_num r = 0"
  shows "m_denom r = 1"
proof -
  from assms have "unat (m_denom r) = unat (1 :: uint)" by (simp add: reduced_def)
  then show ?thesis by (rule word_unat_eq_iff [THEN iffD2])
qed

lemma normalize_idem:
  assumes "reduced r"
  shows "normalize_Fraction r = Inr r"
proof -
  from assms have "std_gcd (m_num r) (m_denom r) = 1"
    by (simp add: std_gcd_def reduced_def)
  moreover from assms have "\<not> (m_num r = 0 \<and> m_denom r = 0)"
    by (auto simp: reduced_def)
  ultimately show ?thesis by (simp add: normalize_cases)
qed

lemma normalize_stored_reduced:
  assumes "nonzero f"
  shows "stored_reduced (normalize_Fraction f)"
proof -
  from assms obtain r where r: "normalize_Fraction f = Inr r"
    using normalize_nonzero by blast
  then have "reduced r" by (rule normalize_reduced)
  with r show ?thesis
    by (simp add: stored_reduced_def reduced_zero_num)
qed

text \<open>The local copy \<^verbatim>\<open>rr{m_num, m_denom}\<close> is the fraction itself.\<close>

lemma Fraction2_copy: "Fraction2 (m_num f) (m_denom f) = f"
  by (cases f) (simp add: Fraction2_def)

text \<open>The second \<^verbatim>\<open>normalize\<close> of the two scalings finds the pair already reduced.\<close>

lemma operator_mul_member_assign: "operator_mul_member f k = operator_mul_assign f k"
proof (cases "operator_mul_assign f k")
  case (Inl e)
  then show ?thesis by (simp add: operator_mul_member_def Fraction2_copy)
next
  case (Inr r)
  then have "reduced r"
    unfolding operator_mul_assign_def by (rule normalize_reduced)
  then have "normalize_Fraction r = Inr r" by (rule normalize_idem)
  with Inr show ?thesis by (simp add: operator_mul_member_def Fraction2_copy)
qed

lemma operator_mul_free_assign: "operator_mul_free k f = operator_mul_assign f k"
proof (cases "operator_mul_assign f k")
  case (Inl e)
  then show ?thesis by (simp add: operator_mul_free_def Fraction2_copy)
next
  case (Inr r)
  then have "reduced r"
    unfolding operator_mul_assign_def by (rule normalize_reduced)
  then have "normalize_Fraction r = Inr r" by (rule normalize_idem)
  with Inr show ?thesis by (simp add: operator_mul_free_def Fraction2_copy)
qed

section \<open>The comparisons over the natural numbers\<close>

lemma reduced_form_scale:
  assumes "nonzero f"
  obtains g where "0 < g"
    and "unat (m_num f) = fst (reduced_form f) * g"
    and "unat (m_denom f) = snd (reduced_form f) * g"
proof
  let ?n = "unat (m_num f)" and ?d = "unat (m_denom f)"
  from assms show "0 < gcd ?n ?d"
    by (auto simp: nonzero_unat)
  show "?n = fst (reduced_form f) * gcd ?n ?d"
    by (simp add: reduced_form_def reduced_pair_def)
  show "?d = snd (reduced_form f) * gcd ?n ?d"
    by (simp add: reduced_form_def reduced_pair_def)
qed

lemma reduced_form_coprime:
  assumes "nonzero f"
  shows "coprime (fst (reduced_form f)) (snd (reduced_form f))"
  using assms
  by (simp add: reduced_form_def reduced_pair_def nonzero_unat div_gcd_coprime)

text \<open>Reducing both operands does not change the order of the cross products.\<close>

lemma cross_less_reduced:
  assumes "nonzero a" and "nonzero b"
  shows "fst (reduced_form a) * snd (reduced_form b)
           < fst (reduced_form b) * snd (reduced_form a)
         \<longleftrightarrow> unat (m_num a) * unat (m_denom b) < unat (m_num b) * unat (m_denom a)"
proof -
  from assms(1) obtain g where g: "0 < g"
    "unat (m_num a) = fst (reduced_form a) * g" "unat (m_denom a) = snd (reduced_form a) * g"
    by (rule reduced_form_scale)
  from assms(2) obtain h where h: "0 < h"
    "unat (m_num b) = fst (reduced_form b) * h" "unat (m_denom b) = snd (reduced_form b) * h"
    by (rule reduced_form_scale)
  let ?l = "fst (reduced_form a) * snd (reduced_form b)"
  let ?r = "fst (reduced_form b) * snd (reduced_form a)"
  have "unat (m_num a) * unat (m_denom b) = ?l * (g * h)"
    by (simp add: g(2) h(3) mult_ac)
  moreover have "unat (m_num b) * unat (m_denom a) = ?r * (g * h)"
    by (simp add: g(3) h(2) mult_ac)
  moreover from g(1) h(1) have "0 < g * h" by simp
  ultimately show ?thesis by simp
qed

text \<open>Two reduced pairs with equal cross products are the same pair.\<close>

lemma coprime_cross_eq:
  fixes n1 d1 n2 d2 :: nat
  assumes c1: "coprime n1 d1" and c2: "coprime n2 d2" and eq: "n1 * d2 = n2 * d1"
  shows "n1 = n2 \<and> d1 = d2"
proof
  have "n1 dvd n2 * d1" using eq by (metis dvd_triv_left)
  with c1 have "n1 dvd n2" by (simp add: coprime_dvd_mult_left_iff)
  moreover have "n2 dvd n1 * d2" using eq by (metis dvd_triv_left)
  with c2 have "n2 dvd n1" by (simp add: coprime_dvd_mult_left_iff)
  ultimately show "n1 = n2" by (rule dvd_antisym)
next
  have "d1 dvd n1 * d2" using eq by (metis dvd_triv_right)
  with c1 have "d1 dvd d2"
    by (simp add: coprime_dvd_mult_right_iff coprime_commute)
  moreover have "d2 dvd n2 * d1" using eq by (metis dvd_triv_right)
  with c2 have "d2 dvd d1"
    by (simp add: coprime_dvd_mult_right_iff coprime_commute)
  ultimately show "d1 = d2" by (rule dvd_antisym)
qed

lemma reduced_form_eq_iff:
  assumes "nonzero a" and "nonzero b"
  shows "reduced_form a = reduced_form b \<longleftrightarrow>
         fst (reduced_form a) * snd (reduced_form b) = fst (reduced_form b) * snd (reduced_form a)"
proof
  assume "reduced_form a = reduced_form b"
  then show "fst (reduced_form a) * snd (reduced_form b)
               = fst (reduced_form b) * snd (reduced_form a)"
    by simp
next
  assume "fst (reduced_form a) * snd (reduced_form b)
            = fst (reduced_form b) * snd (reduced_form a)"
  with reduced_form_coprime [OF assms(1)] reduced_form_coprime [OF assms(2)]
  have "fst (reduced_form a) = fst (reduced_form b) \<and> snd (reduced_form a) = snd (reduced_form b)"
    by (rule coprime_cross_eq)
  then show "reduced_form a = reduced_form b"
    by (simp add: prod_eq_iff)
qed

lemma operator_eq_nat:
  assumes "nonzero a" and "nonzero b"
  shows "operator_eq a b = Inr (reduced_form a = reduced_form b)"
proof -
  from assms(1) obtain ll where ll: "normalize_Fraction a = Inr ll" "stored_pair ll = reduced_form a"
    using normalize_nonzero by blast
  from assms(2) obtain rr where rr: "normalize_Fraction b = Inr rr" "stored_pair rr = reduced_form b"
    using normalize_nonzero by blast
  have "(m_num ll = m_num rr \<and> m_denom ll = m_denom rr) \<longleftrightarrow> stored_pair ll = stored_pair rr"
    by (simp add: stored_pair_def word_unat_eq_iff)
  with ll rr show ?thesis by (simp add: operator_eq_def)
qed

lemma unat_cross:
  assumes "stored_pair ll = reduced_form a" and "stored_pair rr = reduced_form b"
    and "fst (reduced_form a) * snd (reduced_form b) < 2 ^ 32"
  shows "unat (m_num ll * m_denom rr) = fst (reduced_form a) * snd (reduced_form b)"
proof -
  from assms(1,2) have f: "unat (m_num ll) = fst (reduced_form a)"
    "unat (m_denom rr) = snd (reduced_form b)"
    by (simp_all add: stored_pair_def prod_eq_iff)
  with assms(3) have "unat (m_num ll) * unat (m_denom rr) < 2 ^ LENGTH(32)" by simp
  then have "unat (m_num ll * m_denom rr) = unat (m_num ll) * unat (m_denom rr)"
    by (rule unat_mult_lem [THEN iffD1])
  with f show ?thesis by simp
qed

lemma operator_lt_nat:
  assumes "nonzero a" and "nonzero b" and "cross_fits a b"
  shows "operator_lt a b =
         Inr (fst (reduced_form a) * snd (reduced_form b)
                < fst (reduced_form b) * snd (reduced_form a))"
proof -
  from assms(1) obtain ll where ll: "normalize_Fraction a = Inr ll" "stored_pair ll = reduced_form a"
    using normalize_nonzero by blast
  from assms(2) obtain rr where rr: "normalize_Fraction b = Inr rr" "stored_pair rr = reduced_form b"
    using normalize_nonzero by blast
  from assms(3) have
    "unat (m_num ll * m_denom rr) = fst (reduced_form a) * snd (reduced_form b)"
    "unat (m_num rr * m_denom ll) = fst (reduced_form b) * snd (reduced_form a)"
    using unat_cross [OF ll(2) rr(2)] unat_cross [OF rr(2) ll(2)]
    by (simp_all add: cross_fits_def)
  with ll(1) rr(1) show ?thesis
    by (simp add: operator_lt_def word_less_nat_alt)
qed

lemma operator_gt_nat:
  assumes "nonzero a" and "nonzero b" and "cross_fits a b"
  shows "operator_gt a b =
         Inr (fst (reduced_form b) * snd (reduced_form a)
                < fst (reduced_form a) * snd (reduced_form b))"
proof -
  from assms(1) obtain ll where ll: "normalize_Fraction a = Inr ll" "stored_pair ll = reduced_form a"
    using normalize_nonzero by blast
  from assms(2) obtain rr where rr: "normalize_Fraction b = Inr rr" "stored_pair rr = reduced_form b"
    using normalize_nonzero by blast
  from assms(3) have
    "unat (m_num ll * m_denom rr) = fst (reduced_form a) * snd (reduced_form b)"
    "unat (m_num rr * m_denom ll) = fst (reduced_form b) * snd (reduced_form a)"
    using unat_cross [OF ll(2) rr(2)] unat_cross [OF rr(2) ll(2)]
    by (simp_all add: cross_fits_def)
  with ll(1) rr(1) show ?thesis
    by (simp add: operator_gt_def word_less_nat_alt)
qed

lemma cross_fits_sym: "cross_fits a b \<Longrightarrow> cross_fits b a"
  by (simp add: cross_fits_def)

lemmas eval_Fraction =
  Fraction2_def Fraction1_def normalize_Fraction_def std_gcd_def Let_def gcd_non_0_nat

section \<open>Decimal digits\<close>















section \<open>Construction\<close>

text \<open>
  C1, as stated, fails at construction: \<^verbatim>\<open>Fraction{2, 6}\<close> stores the pair 2/6, whose
  greatest common divisor is 2.
\<close>

theorem construction_keeps_common_factor:
  "make 2 6 = Inr \<lparr>m_num = 2, m_denom = 6\<rparr> \<and> \<not> reduced \<lparr>m_num = 2, m_denom = 6\<rparr>"
  by (simp add: make_def Fraction2_def reduced_def)

text \<open>
  C1, amended: every operation that produces a new fraction returns it stored in reduced
  form, with zero stored as 0/1: the three scalings by an integer whenever the operand's
  denominator is not zero, the two products of fractions whenever the wrapped products
  of the numerators and of the denominators are not both zero. Construction itself
  stores the pair as given.
\<close>

theorem operations_store_reduced:
  "(m_denom a \<noteq> 0 \<longrightarrow>
      stored_reduced (operator_mul_member a k) \<and>
      stored_reduced (operator_mul_free k a) \<and>
      stored_reduced (operator_mul_assign a k)) \<and>
   (m_num a * m_num b \<noteq> 0 \<or> m_denom a * m_denom b \<noteq> 0 \<longrightarrow>
      stored_reduced (operator_mul a b) \<and>
      stored_reduced (operator_mul_assign_frac a b)) \<and>
   make n d = Inr \<lparr>m_num = n, m_denom = d\<rparr>"
proof (intro conjI impI)
  assume "m_denom a \<noteq> 0"
  then have "nonzero (a\<lparr>m_num := m_num a * k\<rparr>)" by (simp add: nonzero_def)
  then show "stored_reduced (operator_mul_assign a k)"
    unfolding operator_mul_assign_def by (rule normalize_stored_reduced)
  then show "stored_reduced (operator_mul_member a k)"
    and "stored_reduced (operator_mul_free k a)"
    by (simp_all add: operator_mul_member_assign operator_mul_free_assign)
next
  assume "m_num a * m_num b \<noteq> 0 \<or> m_denom a * m_denom b \<noteq> 0"
  then have nz: "nonzero \<lparr>m_num = m_num a * m_num b, m_denom = m_denom a * m_denom b\<rparr>"
    by (simp add: nonzero_def)
  then show "stored_reduced (operator_mul_assign_frac a b)"
    unfolding operator_mul_assign_frac_def by (rule normalize_stored_reduced)
  from nz show "stored_reduced (operator_mul a b)"
    unfolding operator_mul_def Fraction2_def by (rule normalize_stored_reduced)
next
  show "make n d = Inr \<lparr>m_num = n, m_denom = d\<rparr>"
    by (simp add: make_def Fraction2_def)
qed

theorem operations_store_reduced_witness:
  "stored_reduced (operator_mul_member (Fraction2 1 3) 2) \<and>
   stored_reduced (operator_mul_free 2 (Fraction2 1 3)) \<and>
   stored_reduced (operator_mul_assign (Fraction2 1 3) 2) \<and>
   stored_reduced (operator_mul (Fraction2 1 3) (Fraction1 3)) \<and>
   stored_reduced (operator_mul_assign_frac (Fraction2 1 3) (Fraction1 3))"
  using operations_store_reduced [of "Fraction2 1 3" 2 "Fraction1 3" 0 1]
  by (simp add: Fraction2_def Fraction1_def)

text \<open>
  C2, as stated, fails: \<^verbatim>\<open>Fraction{5, 0}\<close> is constructed without any error.
\<close>

theorem zero_denominator_constructed:
  "make 5 0 \<noteq> Inl DivisionByZero \<and> make 5 0 = Inr \<lparr>m_num = 5, m_denom = 0\<rparr>"
  by (simp add: make_def Fraction2_def)

text \<open>
  C2, amended: for every numerator, construction with denominator 0 returns the
  fraction whose stored pair is that numerator over 0; no error is raised.
\<close>

theorem make_zero_denominator:
  "make n 0 = Inr \<lparr>m_num = n, m_denom = 0\<rparr>"
  by (simp add: make_def Fraction2_def)

section \<open>Scaling by an integer\<close>

text \<open>
  C8: the member \<^verbatim>\<open>a * k\<close> and the free \<^verbatim>\<open>k * a\<close> give the same result for
  every fraction and every integer, the division by zero of 0/0 included.
\<close>

theorem scaling_forms_agree:
  "operator_mul_member a k = operator_mul_free k a"
  by (simp add: operator_mul_member_def operator_mul_free_def)

section \<open>Equality and order\<close>

text \<open>
  C4: for every two fractions whose fields are not both zero, \<^verbatim>\<open>a == b\<close> is true
  exactly when the reduced form of a and the reduced form of b are the same pair; in
  particular 2/6 equals 1/3.
\<close>

theorem operator_eq_reduced_forms:
  "(nonzero a \<and> nonzero b \<longrightarrow> operator_eq a b = Inr (reduced_form a = reduced_form b)) \<and>
   operator_eq (Fraction2 2 6) (Fraction2 1 3) = Inr True"
proof (intro conjI impI)
  assume "nonzero a \<and> nonzero b"
  then show "operator_eq a b = Inr (reduced_form a = reduced_form b)"
    by (simp add: operator_eq_nat)
next
  show "operator_eq (Fraction2 2 6) (Fraction2 1 3) = Inr True"
    by (simp add: operator_eq_def eval_Fraction)
qed

theorem operator_eq_reduced_forms_witness:
  "nonzero (Fraction2 3 6) \<and> nonzero (Fraction2 2 4) \<and>
   reduced_form (Fraction2 3 6) = (1, 2) \<and> reduced_form (Fraction2 2 4) = (1, 2) \<and>
   operator_eq (Fraction2 3 6) (Fraction2 2 4) = Inr True"
  using operator_eq_reduced_forms [of "Fraction2 3 6" "Fraction2 2 4"]
  by (simp add: nonzero_def reduced_form_def reduced_pair_def Fraction2_def gcd_non_0_nat)

text \<open>
  C5, as stated, fails where a cross product wraps: for a = 3000000000/1000000000 and
  b = 5/2863311531 the operator answers \<^verbatim>\<open>a < b\<close>, although the cross products of
  the values as constructed compare the other way, over the natural numbers and in
  32-bit arithmetic alike.
\<close>

theorem operator_lt_wraps:
  "operator_lt (Fraction2 3000000000 1000000000) (Fraction2 5 2863311531) = Inr True \<and>
   \<not> (3000000000 * 2863311531 < 5 * (1000000000 :: nat)) \<and>
   \<not> (3000000000 * 2863311531 < 5 * (1000000000 :: uint))"
  by (simp add: operator_lt_def eval_Fraction)

text \<open>
  C5, amended: for every two fractions whose fields are not both zero and whose reduced
  cross products fit 32 bits, \<^verbatim>\<open>a < b\<close> holds exactly when
  a.numerator * b.denominator < b.numerator * a.denominator over the natural numbers,
  on the values as constructed.
\<close>

theorem operator_lt_cross_multiplication:
  assumes "nonzero a" and "nonzero b" and "cross_fits a b"
  shows "operator_lt a b =
         Inr (unat (m_num a) * unat (m_denom b) < unat (m_num b) * unat (m_denom a))"
  using assms by (simp add: operator_lt_nat cross_less_reduced)

theorem operator_lt_cross_multiplication_witness:
  "nonzero (Fraction2 2 8) \<and> nonzero (Fraction2 2 6) \<and>
   cross_fits (Fraction2 2 8) (Fraction2 2 6) \<and>
   operator_lt (Fraction2 2 8) (Fraction2 2 6) = Inr True"
  using operator_lt_cross_multiplication [of "Fraction2 2 8" "Fraction2 2 6"]
  by (simp add: nonzero_def cross_fits_def reduced_form_def reduced_pair_def Fraction2_def
      gcd_non_0_nat)

text \<open>
  C6, as stated, fails where a cross product wraps: for a = 2147483648/1 and
  b = 2147483648/3 none of \<^verbatim>\<open>a < b\<close>, \<^verbatim>\<open>a == b\<close>, \<^verbatim>\<open>b < a\<close> holds.
\<close>

theorem no_comparison_holds:
  "operator_lt (Fraction2 2147483648 1) (Fraction2 2147483648 3) = Inr False \<and>
   operator_eq (Fraction2 2147483648 1) (Fraction2 2147483648 3) = Inr False \<and>
   operator_lt (Fraction2 2147483648 3) (Fraction2 2147483648 1) = Inr False"
  by (simp add: operator_lt_def operator_eq_def eval_Fraction)

text \<open>
  C6, amended: for every two fractions whose fields are not both zero and whose reduced
  cross products fit 32 bits, exactly one of \<^verbatim>\<open>a < b\<close>, \<^verbatim>\<open>a == b\<close>, \<^verbatim>\<open>b < a\<close>
  holds.
\<close>

theorem comparison_trichotomy:
  assumes "nonzero a" and "nonzero b" and "cross_fits a b"
  shows "(operator_lt a b = Inr True \<and> operator_eq a b = Inr False \<and> operator_lt b a = Inr False) \<or>
         (operator_lt a b = Inr False \<and> operator_eq a b = Inr True \<and> operator_lt b a = Inr False) \<or>
         (operator_lt a b = Inr False \<and> operator_eq a b = Inr False \<and> operator_lt b a = Inr True)"
proof -
  let ?l = "fst (reduced_form a) * snd (reduced_form b)"
  let ?r = "fst (reduced_form b) * snd (reduced_form a)"
  have lt: "operator_lt a b = Inr (?l < ?r)"
    using assms by (rule operator_lt_nat)
  have gt: "operator_lt b a = Inr (?r < ?l)"
    using assms(2) assms(1) cross_fits_sym [OF assms(3)] by (rule operator_lt_nat)
  have eq: "operator_eq a b = Inr (?l = ?r)"
    using assms(1,2) by (simp add: operator_eq_nat reduced_form_eq_iff)
  consider "?l < ?r" | "?l = ?r" | "?r < ?l" by (rule linorder_cases)
  then show ?thesis
  proof cases
    case 1
    with lt gt eq show ?thesis by simp
  next
    case 2
    with lt gt eq show ?thesis by simp
  next
    case 3
    with lt gt eq show ?thesis by simp
  qed
qed

theorem comparison_trichotomy_witness:
  "nonzero (Fraction2 1 4) \<and> nonzero (Fraction2 1 3) \<and>
   cross_fits (Fraction2 1 4) (Fraction2 1 3) \<and>
   operator_lt (Fraction2 1 4) (Fraction2 1 3) = Inr True \<and>
   operator_eq (Fraction2 1 4) (Fraction2 1 3) = Inr False \<and>
   operator_lt (Fraction2 1 3) (Fraction2 1 4) = Inr False"
proof -
  have h: "nonzero (Fraction2 1 4)" "nonzero (Fraction2 1 3)"
    "cross_fits (Fraction2 1 4) (Fraction2 1 3)"
    by (simp_all add: nonzero_def cross_fits_def reduced_form_def reduced_pair_def Fraction2_def)
  have "operator_lt (Fraction2 1 4) (Fraction2 1 3) = Inr True"
    by (simp add: operator_lt_def eval_Fraction)
  with h comparison_trichotomy [OF h] show ?thesis by auto
qed

text \<open>
  C7, as stated, fails where a cross product wraps: for a = 65536/1 and b = 65536/65537
  both \<^verbatim>\<open>a >= b\<close> and \<^verbatim>\<open>a < b\<close> are false.
\<close>

theorem operator_ge_and_lt_both_false:
  "operator_ge (Fraction2 65536 1) (Fraction2 65536 65537) = Inr False \<and>
   operator_lt (Fraction2 65536 1) (Fraction2 65536 65537) = Inr False"
  by (simp add: operator_ge_def operator_gt_def operator_eq_def operator_lt_def eval_Fraction)

text \<open>
  C7, amended: for every two fractions whose fields are not both zero and whose reduced
  cross products fit 32 bits, \<^verbatim>\<open>a >= b\<close> is the negation of \<^verbatim>\<open>a < b\<close>.
\<close>

theorem operator_ge_negates_lt:
  assumes "nonzero a" and "nonzero b" and "cross_fits a b"
  shows "\<exists>x. operator_lt a b = Inr x \<and> operator_ge a b = Inr (\<not> x)"
proof -
  let ?l = "fst (reduced_form a) * snd (reduced_form b)"
  let ?r = "fst (reduced_form b) * snd (reduced_form a)"
  have lt: "operator_lt a b = Inr (?l < ?r)"
    using assms by (rule operator_lt_nat)
  have gt: "operator_gt a b = Inr (?r < ?l)"
    using assms by (rule operator_gt_nat)
  have eq: "operator_eq a b = Inr (?l = ?r)"
    using assms(1,2) by (simp add: operator_eq_nat reduced_form_eq_iff)
  have "operator_ge a b = Inr (\<not> ?l < ?r)"
  proof (cases "?r < ?l")
    case True
    with gt show ?thesis by (simp add: operator_ge_def)
  next
    case False
    with gt eq have "operator_ge a b = Inr (?l = ?r)" by (simp add: operator_ge_def)
    with False show ?thesis by auto
  qed
  with lt show ?thesis by blast
qed

theorem operator_ge_negates_lt_witness:
  "nonzero (Fraction2 1 3) \<and> nonzero (Fraction2 1 4) \<and>
   cross_fits (Fraction2 1 3) (Fraction2 1 4) \<and>
   operator_lt (Fraction2 1 3) (Fraction2 1 4) = Inr False \<and>
   operator_ge (Fraction2 1 3) (Fraction2 1 4) = Inr True"
proof -
  have h: "nonzero (Fraction2 1 3)" "nonzero (Fraction2 1 4)"
    "cross_fits (Fraction2 1 3) (Fraction2 1 4)"
    by (simp_all add: nonzero_def cross_fits_def reduced_form_def reduced_pair_def Fraction2_def)
  have "operator_lt (Fraction2 1 3) (Fraction2 1 4) = Inr False"
    by (simp add: operator_lt_def eval_Fraction)
  with h operator_ge_negates_lt [OF h] show ?thesis by auto
qed

section \<open>Printing a fraction\<close>




section \<open>The product of two fractions\<close>

text \<open>
  C9, as stated, fails where a product wraps: 65536/1 times 65536/1 is returned as 0/1,
  while the reduced form of (65536 * 65536) / (1 * 1) is 4294967296/1.
\<close>

theorem operator_mul_wraps:
  "operator_mul (Fraction2 65536 1) (Fraction2 65536 1) = Inr \<lparr>m_num = 0, m_denom = 1\<rparr> \<and>
   reduced_pair (65536 * 65536) (1 * 1) = (4294967296, 1)"
  by (simp add: operator_mul_def reduced_pair_def eval_Fraction)

text \<open>
  C9, amended: for every two fractions whose product of numerators and product of
  denominators both fit 32 bits and are not both zero, \<^verbatim>\<open>a * b\<close> returns the reduced
  form of (a.numerator * b.numerator) / (a.denominator * b.denominator); in particular
  3/1 times 1/3 is 1/1, which equals \<^verbatim>\<open>Fraction{1}\<close>.
\<close>

theorem operator_mul_reduced_product:
  "(unat (m_num a) * unat (m_num b) < 2 ^ 32 \<and> unat (m_denom a) * unat (m_denom b) < 2 ^ 32 \<and>
    (unat (m_num a) * unat (m_num b) \<noteq> 0 \<or> unat (m_denom a) * unat (m_denom b) \<noteq> 0) \<longrightarrow>
      (\<exists>r. operator_mul a b = Inr r \<and>
         stored_pair r =
           reduced_pair (unat (m_num a) * unat (m_num b)) (unat (m_denom a) * unat (m_denom b)))) \<and>
   operator_mul (Fraction1 3) (Fraction2 1 3) = Inr (Fraction1 1) \<and>
   operator_eq (Fraction1 1) (Fraction1 1) = Inr True"
proof (intro conjI impI)
  let ?p = "\<lparr>m_num = m_num a * m_num b, m_denom = m_denom a * m_denom b\<rparr>"
  assume h: "unat (m_num a) * unat (m_num b) < 2 ^ 32 \<and>
    unat (m_denom a) * unat (m_denom b) < 2 ^ 32 \<and>
    (unat (m_num a) * unat (m_num b) \<noteq> 0 \<or> unat (m_denom a) * unat (m_denom b) \<noteq> 0)"
  then have "unat (m_num a) * unat (m_num b) < 2 ^ LENGTH(32)"
    and "unat (m_denom a) * unat (m_denom b) < 2 ^ LENGTH(32)"
    by simp_all
  then have n: "unat (m_num a * m_num b) = unat (m_num a) * unat (m_num b)"
    and d: "unat (m_denom a * m_denom b) = unat (m_denom a) * unat (m_denom b)"
    by (simp_all only: unat_mult_lem [THEN iffD1])
  with h have "nonzero ?p" by (simp add: nonzero_unat)
  then obtain r where "normalize_Fraction ?p = Inr r" "stored_pair r = reduced_form ?p"
    using normalize_nonzero by blast
  with n d show "\<exists>r. operator_mul a b = Inr r \<and>
         stored_pair r =
           reduced_pair (unat (m_num a) * unat (m_num b)) (unat (m_denom a) * unat (m_denom b))"
    by (simp add: operator_mul_def Fraction2_def reduced_form_def)
next
  show "operator_mul (Fraction1 3) (Fraction2 1 3) = Inr (Fraction1 1)"
    by (simp add: operator_mul_def eval_Fraction)
next
  show "operator_eq (Fraction1 1) (Fraction1 1) = Inr True"
    by (simp add: operator_eq_def eval_Fraction)
qed

theorem operator_mul_reduced_product_witness:
  "\<exists>r. operator_mul (Fraction2 2 3) (Fraction2 3 4) = Inr r \<and> stored_pair r = (1, 2)"
proof -
  have "reduced_pair (2 * 3) (3 * 4) = (1, 2)"
    by (simp add: reduced_pair_def gcd_non_0_nat)
  with operator_mul_reduced_product [of "Fraction2 2 3" "Fraction2 3 4"] show ?thesis
    by (simp add: Fraction2_def)
qed

section \<open>Reaching the division by zero\<close>

text \<open>
  C10, as stated, fails for the product of fractions: both operands 0/65536 have a
  nonzero denominator, yet the denominators multiply to 0 in 32 bits, the numerators to
  0, and \<^verbatim>\<open>normalize\<close> divides by zero.
\<close>

theorem product_divides_by_zero:
  "nonzero (Fraction2 0 65536) \<and>
   operator_mul (Fraction2 0 65536) (Fraction2 0 65536) = Inl DivisionByZero"
  by (simp add: nonzero_def operator_mul_def eval_Fraction)

text \<open>
  C10, amended: the divisor of \<^verbatim>\<open>normalize\<close> is zero exactly when both fields are
  zero, and exactly then \<^verbatim>\<open>normalize\<close> divides by zero. The fraction 0/0 is
  constructible and reaches that division from the comparisons and the
  multiplications. A comparison reaches it exactly when one operand has both fields
  zero; a scaling by an integer exactly when the denominator is zero and the wrapped
  product of numerator and factor is zero; the product of two fractions exactly when
  the wrapped products of the numerators and of the denominators are both zero.
\<close>

theorem division_by_zero_reachability:
  "(std_gcd n d = 0 \<longleftrightarrow> n = 0 \<and> d = 0) \<and>
   (normalize_Fraction f = Inl DivisionByZero \<longleftrightarrow> m_num f = 0 \<and> m_denom f = 0) \<and>
   make 0 0 = Inr (Fraction2 0 0) \<and>
   operator_eq (Fraction2 0 0) b = Inl DivisionByZero \<and>
   operator_lt (Fraction2 0 0) b = Inl DivisionByZero \<and>
   operator_mul_member (Fraction2 0 0) k = Inl DivisionByZero \<and>
   operator_mul (Fraction2 0 0) b = Inl DivisionByZero \<and>
   (operator_eq a b = Inl DivisionByZero \<longleftrightarrow> \<not> nonzero a \<or> \<not> nonzero b) \<and>
   (operator_lt a b = Inl DivisionByZero \<longleftrightarrow> \<not> nonzero a \<or> \<not> nonzero b) \<and>
   (operator_gt a b = Inl DivisionByZero \<longleftrightarrow> \<not> nonzero a \<or> \<not> nonzero b) \<and>
   (operator_ne a b = Inl DivisionByZero \<longleftrightarrow> \<not> nonzero a \<or> \<not> nonzero b) \<and>
   (operator_le a b = Inl DivisionByZero \<longleftrightarrow> \<not> nonzero a \<or> \<not> nonzero b) \<and>
   (operator_ge a b = Inl DivisionByZero \<longleftrightarrow> \<not> nonzero a \<or> \<not> nonzero b) \<and>
   (operator_mul_member a k = Inl DivisionByZero \<longleftrightarrow> m_num a * k = 0 \<and> m_denom a = 0) \<and>
   (operator_mul_free k a = Inl DivisionByZero \<longleftrightarrow> m_num a * k = 0 \<and> m_denom a = 0) \<and>
   (operator_mul a b = Inl DivisionByZero \<longleftrightarrow>
      m_num a * m_num b = 0 \<and> m_denom a * m_denom b = 0)"
proof -
  have cmp: "operator_eq x y = Inl DivisionByZero \<longleftrightarrow> \<not> nonzero x \<or> \<not> nonzero y"
    "operator_lt x y = Inl DivisionByZero \<longleftrightarrow> \<not> nonzero x \<or> \<not> nonzero y"
    "operator_gt x y = Inl DivisionByZero \<longleftrightarrow> \<not> nonzero x \<or> \<not> nonzero y" for x y
    by (simp_all add: operator_eq_def operator_lt_def operator_gt_def normalize_cases nonzero_def)
  have err: "e = DivisionByZero" for e by (cases e) simp
  have derived: "operator_ne x y = Inl DivisionByZero \<longleftrightarrow> \<not> nonzero x \<or> \<not> nonzero y"
    "operator_le x y = Inl DivisionByZero \<longleftrightarrow> \<not> nonzero x \<or> \<not> nonzero y"
    "operator_ge x y = Inl DivisionByZero \<longleftrightarrow> \<not> nonzero x \<or> \<not> nonzero y" for x y
    using cmp [of x y] err
    by (auto simp: operator_ne_def operator_le_def operator_ge_def split: sum.splits)
  have scale: "operator_mul_assign x c = Inl DivisionByZero \<longleftrightarrow> m_num x * c = 0 \<and> m_denom x = 0"
    for x c
    by (simp add: operator_mul_assign_def normalize_Inl)
  have prod: "operator_mul x y = Inl DivisionByZero \<longleftrightarrow>
      m_num x * m_num y = 0 \<and> m_denom x * m_denom y = 0" for x y
    by (simp add: operator_mul_def Fraction2_def normalize_Inl)
  have zero: "\<not> nonzero (Fraction2 0 0)" "m_num (Fraction2 0 0) = 0" "m_denom (Fraction2 0 0) = 0"
    by (simp_all add: nonzero_def Fraction2_def)
  show ?thesis
    by (simp add: std_gcd_eq_0 normalize_Inl make_def cmp derived scale prod zero
        operator_mul_member_assign operator_mul_free_assign)
qed

theorem division_by_zero_reachability_witness:
  "nonzero (Fraction2 1 3) \<and> nonzero (Fraction2 1 4) \<and>
   operator_eq (Fraction2 1 3) (Fraction2 1 4) \<noteq> Inl DivisionByZero \<and>
   operator_lt (Fraction2 1 3) (Fraction2 1 4) \<noteq> Inl DivisionByZero \<and>
   operator_ge (Fraction2 1 3) (Fraction2 1 4) \<noteq> Inl DivisionByZero \<and>
   operator_mul_member (Fraction2 1 3) 2 \<noteq> Inl DivisionByZero \<and>
   operator_mul (Fraction2 1 3) (Fraction2 1 4) \<noteq> Inl DivisionByZero"
  using division_by_zero_reachability [of 1 3 "Fraction2 1 3" "Fraction2 1 4" 2 "Fraction2 1 3"]
  by (simp add: nonzero_def Fraction2_def)

end
